theory Spec2Isabelle
  imports Complex_Main
begin

section \<open>The vehicle model of the traffic simulator\<close>

text \<open>
  This theory embeds \<^verbatim>\<open>simulateur_trafic/models/vehicule.pyx\<close>: the class
  \<^verbatim>\<open>Vehicule\<close> with its operations \<^verbatim>\<open>avancer\<close>, \<^verbatim>\<open>changer_de_route\<close>,
  \<^verbatim>\<open>ajuster_vitesse\<close> and \<^verbatim>\<open>est_arrive\<close>.

  The fields declared \<^verbatim>\<open>cdef public double\<close> are modelled by exact real numbers:
  rounding, infinities and NaN of IEEE doubles are outside the model. A method
  that mutates \<^verbatim>\<open>self\<close> is a function from the vehicle before the call to the
  vehicle after it; \<^verbatim>\<open>None\<close> is \<^term>\<open>None\<close>.
\<close>

subsection \<open>Data\<close>

text \<open>
  Modelled from the spec: the class \<^verbatim>\<open>Route\<close> is not part of the sources at hand.
  The vehicle reads its attributes \<^verbatim>\<open>longueur\<close> (length, km), \<^verbatim>\<open>limite_vitesse\<close>
  (posted speed limit, km/h) and \<^verbatim>\<open>nom\<close>, and calls its membership operations
  \<^verbatim>\<open>retirer_vehicule\<close> and \<^verbatim>\<open>ajouter_vehicule\<close>.
\<close>

record route =
  nom :: string
  longueur :: real
  limite_vitesse :: real

record vehicule =
  position :: real
  vitesse :: real
  vitesse_max :: real
  distance_parcourue :: real
  temps_trajet :: real
  route_actuelle :: "route option"
  identifiant :: string

text \<open>
  Modelled from the spec: the bodies of \<^verbatim>\<open>Route.retirer_vehicule\<close> and
  \<^verbatim>\<open>Route.ajouter_vehicule\<close> are not part of the sources at hand. A call of one of
  them is recorded as an event that names the route called and the identifier of the
  vehicle passed; the calls a method makes are returned in the order they are made.
\<close>

datatype appel_route =
  Retirer_vehicule route string
| Ajouter_vehicule route string

subsection \<open>Operations\<close>

text \<open>Python's \<^verbatim>\<open>min(a, b, c)\<close> on three numbers.\<close>

definition min3 :: "real \<Rightarrow> real \<Rightarrow> real \<Rightarrow> real" where
  "min3 a b c = min (min a b) c"

text \<open>\<^verbatim>\<open>Vehicule.avancer(delta_t)\<close>, \<^verbatim>\<open>delta_t\<close> in minutes.\<close>

definition avancer :: "vehicule \<Rightarrow> real \<Rightarrow> vehicule" where
  "avancer self delta_t =
     (case route_actuelle self of
        None \<Rightarrow> self
      | Some route \<Rightarrow>
          let delta_h = delta_t / 60;
              vitesse_effective = min3 (vitesse self) (limite_vitesse route) (vitesse_max self);
              deplacement = vitesse_effective * delta_h;
              self = self\<lparr>position := position self + deplacement\<rparr>;
              self = self\<lparr>distance_parcourue := distance_parcourue self + deplacement\<rparr>;
              self = self\<lparr>temps_trajet := temps_trajet self + delta_t\<rparr>
          in if position self \<ge> longueur route
             then self\<lparr>position := longueur route\<rparr>
             else self)"

text \<open>
  \<^verbatim>\<open>Vehicule.changer_de_route(nouvelle_route)\<close>: the returned triple is the boolean
  result, the vehicle after the call, and the calls made on routes, in order.
\<close>

definition changer_de_route ::
    "vehicule \<Rightarrow> route option \<Rightarrow> bool \<times> vehicule \<times> appel_route list" where
  "changer_de_route self nouvelle_route =
     (case nouvelle_route of
        None \<Rightarrow> (False, self, [])
      | Some nouvelle \<Rightarrow>
          let appels = (case route_actuelle self of
                          None \<Rightarrow> []
                        | Some ancienne \<Rightarrow> [Retirer_vehicule ancienne (identifiant self)]);
              self = self\<lparr>route_actuelle := Some nouvelle\<rparr>;
              self = self\<lparr>position := 0\<rparr>;
              appels = appels @ [Ajouter_vehicule nouvelle (identifiant self)]
          in (True, self, appels))"

text \<open>
  \<^verbatim>\<open>Vehicule.ajuster_vitesse(vehicule_devant, distance_securite)\<close>. The source
  reads the leader into \<^verbatim>\<open>p_devant\<close> and \<^verbatim>\<open>v_devant\<close>, with \<^verbatim>\<open>p_devant = -1.0\<close> for
  an absent leader; \<^verbatim>\<open>v_devant\<close> is then left unassigned and is not read, since the
  branch taken returns first (the model gives it the value 0 there).
\<close>

definition ajuster_vitesse :: "vehicule \<Rightarrow> vehicule option \<Rightarrow> real \<Rightarrow> vehicule" where
  "ajuster_vitesse self vehicule_devant distance_securite =
     (case route_actuelle self of
        None \<Rightarrow> self
      | Some route \<Rightarrow>
          let p_devant = (case vehicule_devant of None \<Rightarrow> - 1 | Some d \<Rightarrow> position d);
              v_devant = (case vehicule_devant of None \<Rightarrow> 0 | Some d \<Rightarrow> vitesse d)
          in if p_devant < 0
             then self\<lparr>vitesse := min3 (vitesse self + 10) (limite_vitesse route) (vitesse_max self)\<rparr>
             else
               let distance = p_devant - position self
               in if distance < distance_securite
                  then self\<lparr>vitesse := max 0 (v_devant - 10)\<rparr>
                  else if distance < distance_securite * 2
                  then self\<lparr>vitesse := v_devant\<rparr>
                  else self\<lparr>vitesse := min3 (vitesse self + 5) (limite_vitesse route) (vitesse_max self)\<rparr>)"

text \<open>
  \<^verbatim>\<open>Vehicule.est_arrive()\<close>: the boolean result and the vehicle after the call.
\<close>

definition est_arrive :: "vehicule \<Rightarrow> bool \<times> vehicule" where
  "est_arrive self =
     (case route_actuelle self of
        None \<Rightarrow> (False, self)
      | Some route \<Rightarrow> (position self \<ge> longueur route, self))"

text \<open>The default value of \<^verbatim>\<open>distance_securite\<close>.\<close>

definition distance_securite_defaut :: real where
  "distance_securite_defaut = 0.05"

subsection \<open>Example states\<close>

text \<open>
  Concrete routes and vehicles on which the theorems below are evaluated. The fields
  of a vehicle are public and no method validates them, so each of these records is a
  state a vehicle can be in. The numbers are integers or dyadic fractions, except the
  default safety distance.
\<close>

definition route_a :: route where
  "route_a = \<lparr> nom = ''A'', longueur = 10, limite_vitesse = 90 \<rparr>"

definition route_b :: route where
  "route_b = \<lparr> nom = ''B'', longueur = 5, limite_vitesse = 50 \<rparr>"

definition veh_1 :: vehicule where
  "veh_1 = \<lparr> position = 0, vitesse = 60, vitesse_max = 130, distance_parcourue = 0,
             temps_trajet = 0, route_actuelle = Some route_a, identifiant = ''VEH_0001'' \<rparr>"

definition veh_recul :: vehicule where
  "veh_recul = \<lparr> position = 10, vitesse = - 6, vitesse_max = 130, distance_parcourue = 0,
             temps_trajet = 0, route_actuelle = Some route_a, identifiant = ''VEH_0002'' \<rparr>"

definition veh_suiveur :: vehicule where
  "veh_suiveur = \<lparr> position = - 2, vitesse = 0, vitesse_max = 130, distance_parcourue = 0,
             temps_trajet = 0, route_actuelle = Some route_a, identifiant = ''VEH_0003'' \<rparr>"

definition veh_devant :: vehicule where
  "veh_devant = \<lparr> position = - 63 / 32, vitesse = 50, vitesse_max = 130, distance_parcourue = 0,
             temps_trajet = 0, route_actuelle = Some route_a, identifiant = ''VEH_0004'' \<rparr>"

definition veh_proche :: vehicule where
  "veh_proche = \<lparr> position = 1 / 16, vitesse = 200, vitesse_max = 250, distance_parcourue = 0,
             temps_trajet = 0, route_actuelle = Some route_a, identifiant = ''VEH_0005'' \<rparr>"

definition veh_sans_route :: vehicule where
  "veh_sans_route = \<lparr> position = 3, vitesse = 60, vitesse_max = 130, distance_parcourue = 0,
             temps_trajet = 0, route_actuelle = None, identifiant = ''VEH_0006'' \<rparr>"

definition veh_au_bout :: vehicule where
  "veh_au_bout = \<lparr> position = 10, vitesse = 60, vitesse_max = 130, distance_parcourue = 10,
             temps_trajet = 10, route_actuelle = Some route_a, identifiant = ''VEH_0007'' \<rparr>"

lemmas exemples = route_a_def route_b_def veh_1_def veh_recul_def veh_suiveur_def veh_devant_def
  veh_proche_def veh_sans_route_def veh_au_bout_def distance_securite_defaut_def

section \<open>Properties\<close>

subsection \<open>Auxiliary facts\<close>

lemma min3_eq: "min3 a b c = min a (min b c)"
  by (simp add: min3_def min.assoc)

lemma avancer_route: "route_actuelle (avancer v dt) = route_actuelle v"
  by (simp add: avancer_def Let_def split: option.splits)

lemma avancer_vitesse: "vitesse (avancer v dt) = vitesse v"
  by (simp add: avancer_def Let_def split: option.splits)

lemma avancer_vitesse_max: "vitesse_max (avancer v dt) = vitesse_max v"
  by (simp add: avancer_def Let_def split: option.splits)

lemma avancer_position_le:
  "route_actuelle v = Some r \<Longrightarrow> position (avancer v dt) \<le> longueur r"
  by (simp add: avancer_def Let_def)

lemma avancer_reste_au_bout:
  assumes "route_actuelle v = Some r" and "position v = longueur r"
    and "0 \<le> min (vitesse v) (min (limite_vitesse r) (vitesse_max v))" and "0 \<le> dt"
  shows "position (avancer v dt) = longueur r"
proof -
  have "0 \<le> min (vitesse v) (min (limite_vitesse r) (vitesse_max v)) * (dt / 60)"
    using assms(3,4) by simp
  then show ?thesis
    using assms(1,2) by (simp add: avancer_def Let_def min3_eq)
qed

lemma avancer_suite_reste_au_bout:
  "route_actuelle v = Some r \<Longrightarrow> position v = longueur r \<Longrightarrow>
   0 \<le> min (vitesse v) (min (limite_vitesse r) (vitesse_max v)) \<Longrightarrow>
   \<forall>dt \<in> set dts. 0 < dt \<Longrightarrow>
   position (foldl avancer v dts) = longueur r"
proof (induction dts arbitrary: v)
  case Nil
  then show ?case by simp
next
  case (Cons dt dts)
  have p: "position (avancer v dt) = longueur r"
    using Cons.prems by (intro avancer_reste_au_bout) auto
  have "position (foldl avancer (avancer v dt) dts) = longueur r"
    using Cons.prems p
    by (intro Cons.IH) (simp_all add: avancer_route avancer_vitesse avancer_vitesse_max)
  then show ?case by simp
qed

subsection \<open>Advancing\<close>

text \<open>
  Claim C1. For a vehicle \<open>v\<close> on a route \<open>r\<close> and any \<open>dt\<close>, \<^verbatim>\<open>avancer\<close> takes the
  effective speed \<open>min (vitesse, limite_vitesse, vitesse_max)\<close>, adds the displacement
  \<open>d\<close> = effective speed times \<open>dt / 60\<close> to \<open>position\<close> and to \<open>distance_parcourue\<close>,
  and adds \<open>dt\<close> itself to \<open>temps_trajet\<close>; this is the state \<open>w\<close> below. The only
  thing done after it is the clamp of the position at the end of the route.
\<close>

theorem avancer_deplacement:
  "route_actuelle v = Some r \<Longrightarrow>
   avancer v dt =
     (let d = min (vitesse v) (min (limite_vitesse r) (vitesse_max v)) * (dt / 60);
          w = v\<lparr> position := position v + d,
                 distance_parcourue := distance_parcourue v + d,
                 temps_trajet := temps_trajet v + dt \<rparr>
      in if longueur r \<le> position w then w\<lparr>position := longueur r\<rparr> else w)"
  by (simp add: avancer_def min3_eq Let_def)

theorem avancer_deplacement_witness:
  "route_actuelle veh_1 = Some route_a \<and>
   avancer veh_1 6 = veh_1\<lparr> position := 6, distance_parcourue := 6, temps_trajet := 6 \<rparr>"
proof -
  have h: "route_actuelle veh_1 = Some route_a" by (simp add: exemples)
  show ?thesis using h avancer_deplacement [OF h, of 6] by (simp add: exemples)
qed

text \<open>
  Claim C3 as stated fails in its second half: a vehicle standing at the end of its
  route with a negative speed moves back. \<open>veh_recul\<close> is at kilometre 10 of a route
  of 10 km with speed \<open>-6\<close>; after 60 minutes it is at kilometre 4.
\<close>

theorem position_au_bout_contre_exemple:
  "route_actuelle veh_recul = Some route_a \<and> (0::real) < 60 \<and>
   position veh_recul = longueur route_a \<and>
   position (avancer veh_recul 60) = 4 \<and>
   position (avancer veh_recul 60) \<noteq> longueur route_a"
  by (simp add: exemples avancer_def min3_eq)

text \<open>
  Claim C3 (amended). For a vehicle on a route \<open>r\<close> and \<open>dt > 0\<close>, the position after
  \<^verbatim>\<open>avancer\<close> is at most \<open>longueur r\<close>. Once the position equals \<open>longueur r\<close>, and
  provided the effective speed \<open>min (vitesse, limite_vitesse, vitesse_max)\<close> is not
  negative, every further call of \<^verbatim>\<open>avancer\<close> with a positive step leaves it there.
\<close>

theorem avancer_position_bornee:
  "route_actuelle v = Some r \<Longrightarrow>
   (0 < dt \<longrightarrow> position (avancer v dt) \<le> longueur r) \<and>
   (position v = longueur r \<and>
    0 \<le> min (vitesse v) (min (limite_vitesse r) (vitesse_max v)) \<and>
    (\<forall>d \<in> set dts. 0 < d) \<longrightarrow>
      position (foldl avancer v dts) = longueur r)"
  using avancer_position_le avancer_suite_reste_au_bout by blast

theorem avancer_position_bornee_witness:
  "route_actuelle veh_au_bout = Some route_a \<and> (0::real) < 6 \<and>
   position (avancer veh_au_bout 6) \<le> longueur route_a \<and>
   position veh_au_bout = longueur route_a \<and>
   0 \<le> min (vitesse veh_au_bout) (min (limite_vitesse route_a) (vitesse_max veh_au_bout)) \<and>
   (0::real) < 60 \<and>
   position (foldl avancer veh_au_bout [6, 60]) = longueur route_a"
proof -
  have h: "route_actuelle veh_au_bout = Some route_a" by (simp add: exemples)
  have h0: "(0::real) < 6" by simp
  have h1: "position veh_au_bout = longueur route_a" by (simp add: exemples)
  have h2: "0 \<le> min (vitesse veh_au_bout)
      (min (limite_vitesse route_a) (vitesse_max veh_au_bout))"
    by (simp add: exemples)
  have h3: "\<forall>d \<in> set [6, 60]. (0::real) < d" by simp
  have h4: "(0::real) < 60" by simp
  show ?thesis
    using h h0 h1 h2 h3 h4 avancer_position_bornee [OF h, of 6 "[6, 60]"] by blast
qed

text \<open>
  Claim C6 as stated fails: with a negative step both counters decrease, and with a
  positive step and a negative speed the distance decreases.
\<close>

theorem cumuls_decroissants_contre_exemple:
  "temps_trajet (avancer veh_1 (- 60)) < temps_trajet veh_1 \<and>
   distance_parcourue (avancer veh_1 (- 60)) < distance_parcourue veh_1 \<and>
   (0::real) < 60 \<and>
   distance_parcourue (avancer veh_recul 60) < distance_parcourue veh_recul"
  by (simp add: exemples avancer_def min3_eq)

text \<open>
  Claim C6 (amended). For every vehicle and every \<open>dt \<ge> 0\<close>, \<open>temps_trajet\<close> after
  \<^verbatim>\<open>avancer\<close> is at least its value before; \<open>distance_parcourue\<close> is at least its
  value before provided the effective speed on the current route, if there is one, is
  not negative.
\<close>

theorem avancer_cumuls_croissants:
  "0 \<le> dt \<Longrightarrow>
   temps_trajet v \<le> temps_trajet (avancer v dt) \<and>
   ((\<forall>r. route_actuelle v = Some r \<longrightarrow>
        0 \<le> min (vitesse v) (min (limite_vitesse r) (vitesse_max v))) \<longrightarrow>
    distance_parcourue v \<le> distance_parcourue (avancer v dt))"
  by (auto simp add: avancer_def min3_eq Let_def split: option.splits)

theorem avancer_cumuls_croissants_witness:
  "(0::real) \<le> 6 \<and>
   route_actuelle veh_1 = Some route_a \<and>
   0 \<le> min (vitesse veh_1) (min (limite_vitesse route_a) (vitesse_max veh_1)) \<and>
   temps_trajet veh_1 \<le> temps_trajet (avancer veh_1 6) \<and>
   distance_parcourue veh_1 \<le> distance_parcourue (avancer veh_1 6) \<and>
   temps_trajet (avancer veh_1 6) = 6 \<and> distance_parcourue (avancer veh_1 6) = 6"
proof -
  have h1: "(0::real) \<le> 6" by simp
  have h2: "\<forall>r. route_actuelle veh_1 = Some r \<longrightarrow>
        0 \<le> min (vitesse veh_1) (min (limite_vitesse r) (vitesse_max veh_1))"
    by (simp add: exemples)
  have "temps_trajet (avancer veh_1 6) = 6 \<and> distance_parcourue (avancer veh_1 6) = 6"
    by (simp add: exemples avancer_def min3_eq)
  moreover have "route_actuelle veh_1 = Some route_a \<and>
      0 \<le> min (vitesse veh_1) (min (limite_vitesse route_a) (vitesse_max veh_1))"
    by (simp add: exemples)
  ultimately show ?thesis
    using h1 h2 avancer_cumuls_croissants [OF h1, of veh_1] by simp
qed

subsection \<open>Without a route\<close>

text \<open>
  Claim C7. For a vehicle whose \<open>route_actuelle\<close> is \<open>None\<close>, \<^verbatim>\<open>avancer\<close> with any step
  and \<^verbatim>\<open>ajuster_vitesse\<close> with any leader argument and any safety distance return the
  vehicle with every field unchanged.
\<close>

theorem sans_route_sans_effet:
  "route_actuelle v = None \<Longrightarrow> avancer v dt = v \<and> ajuster_vitesse v devant ds = v"
  by (simp add: avancer_def ajuster_vitesse_def)

theorem sans_route_sans_effet_witness:
  "route_actuelle veh_sans_route = None \<and>
   avancer veh_sans_route 6 = veh_sans_route \<and>
   ajuster_vitesse veh_sans_route (Some veh_proche) distance_securite_defaut = veh_sans_route \<and>
   ajuster_vitesse veh_sans_route None distance_securite_defaut = veh_sans_route"
proof -
  have h: "route_actuelle veh_sans_route = None" by (simp add: exemples)
  show ?thesis
    using h sans_route_sans_effet [OF h, of 6 "Some veh_proche" distance_securite_defaut]
      sans_route_sans_effet [OF h, of 6 None distance_securite_defaut]
    by simp
qed

text \<open>
  Claim C8. \<^verbatim>\<open>est_arrive\<close> returns true exactly when the vehicle has a route \<open>r\<close> and
  \<open>position \<ge> longueur r\<close>; it returns false when there is no route; the vehicle after
  the call is the vehicle before it.
\<close>

theorem est_arrive_ssi:
  "fst (est_arrive v) = (\<exists>r. route_actuelle v = Some r \<and> longueur r \<le> position v) \<and>
   (route_actuelle v = None \<longrightarrow> \<not> fst (est_arrive v)) \<and>
   snd (est_arrive v) = v"
  by (simp add: est_arrive_def split: option.splits)

theorem est_arrive_ssi_witness:
  "fst (est_arrive veh_au_bout) \<and> \<not> fst (est_arrive veh_1) \<and>
   route_actuelle veh_sans_route = None \<and> \<not> fst (est_arrive veh_sans_route) \<and>
   snd (est_arrive veh_au_bout) = veh_au_bout"
  using est_arrive_ssi [of veh_au_bout] est_arrive_ssi [of veh_1]
    est_arrive_ssi [of veh_sans_route]
  by (simp add: exemples)

subsection \<open>Changing route\<close>

text \<open>
  Claim C4. \<^verbatim>\<open>changer_de_route\<close> with \<open>None\<close> returns false, leaves the vehicle as it
  is and calls no route. With a route \<open>n\<close> it returns true, sets \<open>route_actuelle\<close> to \<open>n\<close>
  and \<open>position\<close> to 0, leaves \<open>vitesse\<close>, \<open>distance_parcourue\<close>, \<open>temps_trajet\<close> (and
  \<open>vitesse_max\<close>, \<open>identifiant\<close>) unchanged, and calls \<^verbatim>\<open>retirer_vehicule\<close> on the
  previous route, only if there was one, and then \<^verbatim>\<open>ajouter_vehicule\<close> on \<open>n\<close>.
\<close>

theorem changer_de_route_transfert:
  "changer_de_route v None = (False, v, []) \<and>
   changer_de_route v (Some n) =
     (True, v\<lparr>route_actuelle := Some n, position := 0\<rparr>,
      (case route_actuelle v of
         None \<Rightarrow> []
       | Some a \<Rightarrow> [Retirer_vehicule a (identifiant v)]) @
      [Ajouter_vehicule n (identifiant v)]) \<and>
   (let v' = fst (snd (changer_de_route v (Some n)))
    in position v' = 0 \<and> route_actuelle v' = Some n \<and> vitesse v' = vitesse v \<and>
       distance_parcourue v' = distance_parcourue v \<and> temps_trajet v' = temps_trajet v \<and>
       vitesse_max v' = vitesse_max v \<and> identifiant v' = identifiant v)"
  by (simp add: changer_de_route_def Let_def split: option.splits)

theorem changer_de_route_transfert_witness:
  "changer_de_route veh_1 None = (False, veh_1, []) \<and>
   changer_de_route (avancer veh_1 6) (Some route_b) =
     (True,
      \<lparr> position = 0, vitesse = 60, vitesse_max = 130, distance_parcourue = 6,
        temps_trajet = 6, route_actuelle = Some route_b, identifiant = ''VEH_0001'' \<rparr>,
      [Retirer_vehicule route_a ''VEH_0001'', Ajouter_vehicule route_b ''VEH_0001'']) \<and>
   changer_de_route veh_sans_route (Some route_b) =
     (True, veh_sans_route\<lparr>route_actuelle := Some route_b, position := 0\<rparr>,
      [Ajouter_vehicule route_b ''VEH_0006''])"
  using changer_de_route_transfert [of veh_1 route_b]
    changer_de_route_transfert [of "avancer veh_1 6" route_b]
    changer_de_route_transfert [of veh_sans_route route_b]
  by (simp add: exemples avancer_def min3_eq)

subsection \<open>Adjusting the speed\<close>

text \<open>
  Claim C2 as stated fails for a leader whose position is negative. \<open>veh_devant\<close> is
  1/32 km ahead of \<open>veh_suiveur\<close>, less than the default safety distance, and drives at
  50: the braking zone would give \<open>max 0 (50 - 10) = 40\<close>, and the follower's speed
  becomes 10.
\<close>

theorem zones_devant_negatif_contre_exemple:
  "route_actuelle veh_suiveur = Some route_a \<and>
   position veh_devant - position veh_suiveur < distance_securite_defaut \<and>
   max 0 (vitesse veh_devant - 10) = 40 \<and>
   vitesse (ajuster_vitesse veh_suiveur (Some veh_devant) distance_securite_defaut) = 10 \<and>
   vitesse (ajuster_vitesse veh_suiveur (Some veh_devant) distance_securite_defaut)
     \<noteq> max 0 (vitesse veh_devant - 10)"
  by (simp add: exemples ajuster_vitesse_def min3_eq Let_def)

text \<open>
  Claim C2 (amended). For a vehicle \<open>v\<close> on a route \<open>r\<close> and a leader \<open>d\<close> whose
  position is not negative, \<^verbatim>\<open>ajuster_vitesse\<close> takes \<open>gap = position d - position v\<close>
  and changes only the speed: to \<open>max 0 (vitesse d - 10)\<close> if \<open>gap < ds\<close>, else to
  \<open>vitesse d\<close> if \<open>gap < 2 * ds\<close>, else to \<open>min (vitesse v + 5, limite_vitesse r,
  vitesse_max v)\<close>.
\<close>

theorem ajuster_vitesse_zones:
  "route_actuelle v = Some r \<Longrightarrow> 0 \<le> position d \<Longrightarrow>
   ajuster_vitesse v (Some d) ds =
     (let gap = position d - position v
      in if gap < ds then v\<lparr>vitesse := max 0 (vitesse d - 10)\<rparr>
         else if gap < 2 * ds then v\<lparr>vitesse := vitesse d\<rparr>
         else v\<lparr>vitesse := min (vitesse v + 5) (min (limite_vitesse r) (vitesse_max v))\<rparr>)"
  by (simp add: ajuster_vitesse_def min3_eq Let_def mult.commute)

theorem ajuster_vitesse_zones_witness:
  "route_actuelle veh_1 = Some route_a \<and> 0 \<le> position veh_proche \<and>
   ajuster_vitesse veh_1 (Some veh_proche) (1 / 8) = veh_1\<lparr>vitesse := 190\<rparr> \<and>
   ajuster_vitesse veh_1 (Some veh_proche) (1 / 16) = veh_1\<lparr>vitesse := 200\<rparr> \<and>
   ajuster_vitesse veh_1 (Some veh_proche) (1 / 32) = veh_1\<lparr>vitesse := 65\<rparr>"
proof -
  have h1: "route_actuelle veh_1 = Some route_a" by (simp add: exemples)
  have h2: "0 \<le> position veh_proche" by (simp add: exemples)
  show ?thesis
    using h1 h2 ajuster_vitesse_zones [OF h1 h2, of "1 / 8"]
      ajuster_vitesse_zones [OF h1 h2, of "1 / 16"]
      ajuster_vitesse_zones [OF h1 h2, of "1 / 32"]
    by (simp add: exemples)
qed

text \<open>
  Claim C5 as stated fails: the speed assigned is negative when the leader matched has
  a negative speed, when the vehicle's own speed is below \<open>-10\<close>, when the route's
  speed limit is negative, or when \<open>vitesse_max\<close> is negative.
\<close>

theorem vitesse_negative_contre_exemple:
  "vitesse (ajuster_vitesse veh_1 (Some (veh_proche\<lparr>vitesse := - 5\<rparr>))
      distance_securite_defaut) = - 5 \<and>
   vitesse (ajuster_vitesse (veh_1\<lparr>vitesse := - 20\<rparr>) None distance_securite_defaut) = - 10 \<and>
   vitesse (ajuster_vitesse (veh_1\<lparr>route_actuelle := Some (route_a\<lparr>limite_vitesse := - 30\<rparr>)\<rparr>)
      None distance_securite_defaut) = - 30 \<and>
   vitesse (ajuster_vitesse (veh_1\<lparr>vitesse_max := - 1\<rparr>) None distance_securite_defaut) = - 1"
  by (simp add: exemples ajuster_vitesse_def min3_eq Let_def)

text \<open>
  Claim C5 (amended). \<^verbatim>\<open>ajuster_vitesse\<close> keeps the speed non-negative: if the
  vehicle's speed and \<open>vitesse_max\<close>, the speed limit of its route (if it has one) and
  the speed of the leader (if there is one) are not negative, then the speed after the
  call is not negative, for every leader position and safety distance.
\<close>

theorem ajuster_vitesse_positive:
  "0 \<le> vitesse v \<Longrightarrow> 0 \<le> vitesse_max v \<Longrightarrow>
   (\<forall>r. route_actuelle v = Some r \<longrightarrow> 0 \<le> limite_vitesse r) \<Longrightarrow>
   (\<forall>d. devant = Some d \<longrightarrow> 0 \<le> vitesse d) \<Longrightarrow>
   0 \<le> vitesse (ajuster_vitesse v devant ds)"
  by (auto simp add: ajuster_vitesse_def min3_eq Let_def split: option.splits)

theorem ajuster_vitesse_positive_witness:
  "0 \<le> vitesse veh_1 \<and> 0 \<le> vitesse_max veh_1 \<and>
   route_actuelle veh_1 = Some route_a \<and> 0 \<le> limite_vitesse route_a \<and>
   0 \<le> vitesse veh_proche \<and>
   0 \<le> vitesse (ajuster_vitesse veh_1 (Some veh_proche) distance_securite_defaut) \<and>
   vitesse (ajuster_vitesse veh_1 (Some veh_proche) distance_securite_defaut) = 200"
proof -
  have h1: "0 \<le> vitesse veh_1" and h2: "0 \<le> vitesse_max veh_1"
    by (simp_all add: exemples)
  have h3: "\<forall>r. route_actuelle veh_1 = Some r \<longrightarrow> 0 \<le> limite_vitesse r"
    by (simp add: exemples)
  have h4: "\<forall>d. Some veh_proche = Some d \<longrightarrow> 0 \<le> vitesse d"
    by (simp add: exemples)
  have "vitesse (ajuster_vitesse veh_1 (Some veh_proche) distance_securite_defaut) = 200"
    by (simp add: exemples ajuster_vitesse_def Let_def)
  moreover have "route_actuelle veh_1 = Some route_a \<and> 0 \<le> limite_vitesse route_a \<and>
      0 \<le> vitesse veh_proche"
    by (simp add: exemples)
  ultimately show ?thesis
    using h1 h2 ajuster_vitesse_positive [OF h1 h2 h3 h4, of distance_securite_defaut]
    by simp
qed

text \<open>
  Claim C9. For a vehicle \<open>v\<close> on a route \<open>r\<close> and a leader \<open>d\<close> with
  \<open>position d < 0\<close>, \<^verbatim>\<open>ajuster_vitesse\<close> does what it does without a leader: the speed
  becomes \<open>min (vitesse v + 10, limite_vitesse r, vitesse_max v)\<close>, whatever the gap and
  the leader's speed.
\<close>

theorem devant_negatif_comme_absent:
  "route_actuelle v = Some r \<Longrightarrow> position d < 0 \<Longrightarrow>
   ajuster_vitesse v (Some d) ds = ajuster_vitesse v None ds \<and>
   ajuster_vitesse v (Some d) ds =
     v\<lparr>vitesse := min (vitesse v + 10) (min (limite_vitesse r) (vitesse_max v))\<rparr>"
  by (simp add: ajuster_vitesse_def min3_eq)

theorem devant_negatif_comme_absent_witness:
  "route_actuelle veh_suiveur = Some route_a \<and> position veh_devant < 0 \<and>
   ajuster_vitesse veh_suiveur (Some veh_devant) distance_securite_defaut =
     ajuster_vitesse veh_suiveur None distance_securite_defaut \<and>
   ajuster_vitesse veh_suiveur (Some veh_devant) distance_securite_defaut =
     veh_suiveur\<lparr>vitesse := 10\<rparr>"
proof -
  have h1: "route_actuelle veh_suiveur = Some route_a" by (simp add: exemples)
  have h2: "position veh_devant < 0" by (simp add: exemples)
  show ?thesis
    using h1 h2 devant_negatif_comme_absent [OF h1 h2, of distance_securite_defaut]
    by (simp add: exemples ajuster_vitesse_def Let_def min3_eq)
qed

text \<open>
  Claim C10. \<^verbatim>\<open>ajuster_vitesse\<close> does not bound the stored speed by \<open>vitesse_max\<close> or by
  the route's speed limit. For a vehicle \<open>v\<close> on a route \<open>r\<close> and a leader \<open>d\<close> at a
  non-negative position, a gap in \<open>[ds, 2 * ds)\<close> makes the speed of \<open>v\<close> the leader's
  speed as it is, and a gap below \<open>ds\<close> makes it \<open>max 0 (vitesse d - 10)\<close>, with no cap
  in either; the caps enter only in \<^verbatim>\<open>avancer\<close>, whose displacement uses
  \<open>min (vitesse, limite_vitesse, vitesse_max)\<close>. Hence there is a state in which the
  speed before the call is within both caps, the leader's speed is above both, and the
  speed after the call is the leader's, above both, while \<^verbatim>\<open>avancer\<close> then moves the
  vehicle at the capped speed.
\<close>

theorem vitesse_non_plafonnee:
  "(route_actuelle v = Some r \<and> 0 \<le> position d \<and>
    ds \<le> position d - position v \<and> position d - position v < 2 * ds \<longrightarrow>
      ajuster_vitesse v (Some d) ds = v\<lparr>vitesse := vitesse d\<rparr>) \<and>
   (route_actuelle v = Some r \<and> 0 \<le> position d \<and> position d - position v < ds \<longrightarrow>
      ajuster_vitesse v (Some d) ds = v\<lparr>vitesse := max 0 (vitesse d - 10)\<rparr>) \<and>
   (route_actuelle v = Some r \<longrightarrow>
      distance_parcourue (avancer v dt) =
        distance_parcourue v +
        min (vitesse v) (min (limite_vitesse r) (vitesse_max v)) * (dt / 60)) \<and>
   (\<exists>w r' d' ds'.
      route_actuelle w = Some r' \<and>
      vitesse w \<le> vitesse_max w \<and> vitesse w \<le> limite_vitesse r' \<and>
      ds' \<le> position d' - position w \<and> position d' - position w < 2 * ds' \<and>
      vitesse_max w < vitesse d' \<and> limite_vitesse r' < vitesse d' \<and>
      vitesse (ajuster_vitesse w (Some d') ds') = vitesse d' \<and>
      vitesse_max w < vitesse (ajuster_vitesse w (Some d') ds') \<and>
      limite_vitesse r' < vitesse (ajuster_vitesse w (Some d') ds') \<and>
      0 < min (limite_vitesse r') (vitesse_max w) \<and>
      distance_parcourue (avancer (ajuster_vitesse w (Some d') ds') 60) =
        distance_parcourue w + min (limite_vitesse r') (vitesse_max w))"
proof -
  have match: "ajuster_vitesse v (Some d) ds = v\<lparr>vitesse := vitesse d\<rparr>"
    if "route_actuelle v = Some r" "0 \<le> position d"
      "ds \<le> position d - position v" "position d - position v < 2 * ds"
    using that by (simp add: ajuster_vitesse_def Let_def mult.commute)
  have frein: "ajuster_vitesse v (Some d) ds = v\<lparr>vitesse := max 0 (vitesse d - 10)\<rparr>"
    if "route_actuelle v = Some r" "0 \<le> position d" "position d - position v < ds"
    using that by (simp add: ajuster_vitesse_def Let_def)
  have depl: "distance_parcourue (avancer v dt) =
        distance_parcourue v +
        min (vitesse v) (min (limite_vitesse r) (vitesse_max v)) * (dt / 60)"
    if "route_actuelle v = Some r"
    using that by (simp add: avancer_def min3_eq Let_def)
  have "route_actuelle veh_1 = Some route_a \<and>
      vitesse veh_1 \<le> vitesse_max veh_1 \<and> vitesse veh_1 \<le> limite_vitesse route_a \<and>
      distance_securite_defaut \<le> position veh_proche - position veh_1 \<and>
      position veh_proche - position veh_1 < 2 * distance_securite_defaut \<and>
      vitesse_max veh_1 < vitesse veh_proche \<and> limite_vitesse route_a < vitesse veh_proche \<and>
      vitesse (ajuster_vitesse veh_1 (Some veh_proche) distance_securite_defaut)
        = vitesse veh_proche \<and>
      vitesse_max veh_1
        < vitesse (ajuster_vitesse veh_1 (Some veh_proche) distance_securite_defaut) \<and>
      limite_vitesse route_a
        < vitesse (ajuster_vitesse veh_1 (Some veh_proche) distance_securite_defaut) \<and>
      0 < min (limite_vitesse route_a) (vitesse_max veh_1) \<and>
      distance_parcourue
          (avancer (ajuster_vitesse veh_1 (Some veh_proche) distance_securite_defaut) 60) =
        distance_parcourue veh_1 + min (limite_vitesse route_a) (vitesse_max veh_1)"
    by (simp add: exemples ajuster_vitesse_def avancer_def min3_eq Let_def)
  then have ex: "\<exists>w r' d' ds'.
      route_actuelle w = Some r' \<and>
      vitesse w \<le> vitesse_max w \<and> vitesse w \<le> limite_vitesse r' \<and>
      ds' \<le> position d' - position w \<and> position d' - position w < 2 * ds' \<and>
      vitesse_max w < vitesse d' \<and> limite_vitesse r' < vitesse d' \<and>
      vitesse (ajuster_vitesse w (Some d') ds') = vitesse d' \<and>
      vitesse_max w < vitesse (ajuster_vitesse w (Some d') ds') \<and>
      limite_vitesse r' < vitesse (ajuster_vitesse w (Some d') ds') \<and>
      0 < min (limite_vitesse r') (vitesse_max w) \<and>
      distance_parcourue (avancer (ajuster_vitesse w (Some d') ds') 60) =
        distance_parcourue w + min (limite_vitesse r') (vitesse_max w)"
    by blast
  show ?thesis using match frein depl ex by blast
qed

theorem vitesse_non_plafonnee_witness:
  "route_actuelle veh_1 = Some route_a \<and> 0 \<le> position veh_proche \<and>
   vitesse veh_1 = 60 \<and> vitesse_max veh_1 = 130 \<and> limite_vitesse route_a = 90 \<and>
   distance_securite_defaut \<le> position veh_proche - position veh_1 \<and>
   position veh_proche - position veh_1 < 2 * distance_securite_defaut \<and>
   ajuster_vitesse veh_1 (Some veh_proche) distance_securite_defaut = veh_1\<lparr>vitesse := 200\<rparr> \<and>
   position veh_proche - position veh_1 < 1 / 8 \<and>
   ajuster_vitesse veh_1 (Some veh_proche) (1 / 8) = veh_1\<lparr>vitesse := 190\<rparr> \<and>
   route_actuelle (veh_1\<lparr>vitesse := 200\<rparr>) = Some route_a \<and>
   distance_parcourue (avancer (veh_1\<lparr>vitesse := 200\<rparr>) 60) = 90"
proof -
  have h1: "route_actuelle veh_1 = Some route_a" and h2: "0 \<le> position veh_proche"
    and h3: "distance_securite_defaut \<le> position veh_proche - position veh_1"
    and h4: "position veh_proche - position veh_1 < 2 * distance_securite_defaut"
    and h5: "position veh_proche - position veh_1 < 1 / 8"
    and h6: "route_actuelle (veh_1\<lparr>vitesse := 200\<rparr>) = Some route_a"
    by (simp_all add: exemples)
  have v: "vitesse veh_1 = 60 \<and> vitesse_max veh_1 = 130 \<and> limite_vitesse route_a = 90 \<and>
      vitesse veh_proche = 200"
    by (simp add: exemples)
  have a: "ajuster_vitesse veh_1 (Some veh_proche) distance_securite_defaut =
      veh_1\<lparr>vitesse := vitesse veh_proche\<rparr>"
    using h1 h2 h3 h4
      vitesse_non_plafonnee [where v = veh_1 and r = route_a and d = veh_proche
        and ds = distance_securite_defaut]
    by blast
  have b: "ajuster_vitesse veh_1 (Some veh_proche) (1 / 8) =
      veh_1\<lparr>vitesse := max 0 (vitesse veh_proche - 10)\<rparr>"
    using h1 h2 h5
      vitesse_non_plafonnee [where v = veh_1 and r = route_a and d = veh_proche
        and ds = "1 / 8"]
    by blast
  have c: "distance_parcourue (avancer (veh_1\<lparr>vitesse := 200\<rparr>) 60) =
      distance_parcourue (veh_1\<lparr>vitesse := 200\<rparr>) +
      min (vitesse (veh_1\<lparr>vitesse := 200\<rparr>))
        (min (limite_vitesse route_a) (vitesse_max (veh_1\<lparr>vitesse := 200\<rparr>))) * (60 / 60)"
    using h6
      vitesse_non_plafonnee [where v = "veh_1\<lparr>vitesse := 200\<rparr>" and r = route_a and dt = 60]
    by blast
  have c': "distance_parcourue (avancer (veh_1\<lparr>vitesse := 200\<rparr>) 60) = 90"
    using c by (simp add: exemples)
  show ?thesis
    using h1 h2 h3 h4 h5 h6 v a b c' by simp
qed

end
